theory Spec2Isabelle
  imports Main "HOL-Library.Word" "HOL-Library.AList" "HOL-Library.Sublist"
begin

unbundle bit_operations_syntax

section \<open>Host data: errno, stat records, attribute changes\<close>

text \<open>
  The union file system of \<^verbatim>\<open>me.c\<close> and \<^verbatim>\<open>opts.c\<close> runs on top of two lower directory
  trees. A lower tree is an association list from concrete paths to nodes; the order of
  the list is the order in which the lower file system stores its entries.
  Every C function that returns \<^verbatim>\<open>int\<close> returns \<open>Ok\<close> for 0 and \<open>Err e\<close> for \<^verbatim>\<open>-e\<close>;
  \<open>Tag t\<close> is the origin tag of \<^verbatim>\<open>find_file\<close> when a caller lets it through in \<^verbatim>\<open>err\<close>.
  Allocation failures (\<^verbatim>\<open>kmalloc\<close> returning NULL) are not modelled.
\<close>

datatype errno = EPERM | ENOENT | EIO | EACCES | EEXIST | EINVAL | ENOSPC | ENOTEMPTY | ENAMETOOLONG

datatype origin = READ_ONLY | READ_WRITE | READ_WRITE_COPYUP

datatype retval = Ok | Err errno | Tag origin

type_synonym umode_t = "16 word"

record kstat =
  mode :: umode_t
  uid :: nat
  gid :: nat
  fsize :: nat
  atime :: nat
  mtime :: nat
  ctime :: nat

text \<open>The bits of \<^verbatim>\<open>ia_valid\<close>, as a set: \<^verbatim>\<open>|\<close> is union, \<^verbatim>\<open>&\<close> is intersection.\<close>

datatype attr_flag =
  ATTR_MODE | ATTR_UID | ATTR_GID | ATTR_SIZE | ATTR_ATIME | ATTR_MTIME | ATTR_CTIME
  | ATTR_ATIME_SET | ATTR_MTIME_SET

record iattr =
  ia_valid :: "attr_flag set"
  ia_mode :: umode_t
  ia_uid :: nat
  ia_gid :: nat
  ia_size :: nat
  ia_atime :: nat
  ia_mtime :: nat
  ia_ctime :: nat

record node =
  n_stat :: kstat
  n_target :: "string option"

type_synonym fs = "(string \<times> node) list"

record hepunion_sb_info =
  read_only_branch :: string
  read_write_branch :: string

text \<open>
  What the host decides and the code cannot see: the clock, the caller's identity, the
  faults of the lower file system on a concrete path, and the credential checks of
  \<^verbatim>\<open>can_create\<close> and \<^verbatim>\<open>can_remove\<close> on a logical path (\<open>None\<close>: granted).
  The last three fields are what memory holds where the code reads it before writing it:
  a local \<^verbatim>\<open>int\<close> whose initialiser is never run, a \<^verbatim>\<open>struct kstat\<close> that a failed
  \<^verbatim>\<open>lstat\<close> left untouched, and a path buffer fresh from \<^verbatim>\<open>kmalloc\<close>.
\<close>

record host =
  h_now :: nat
  h_fsuid :: nat
  h_fsgid :: nat
  h_deny_create :: "string \<Rightarrow> errno option"
  h_deny_unlink :: "string \<Rightarrow> errno option"
  h_can_create :: "string \<Rightarrow> errno option"
  h_can_remove :: "string \<Rightarrow> errno option"
  h_unset_flag :: bool
  h_unset_stat :: kstat
  h_unset_path :: string

definition PATH_MAX :: nat where
  "PATH_MAX = 4096"

definition S_IFMT :: umode_t where
  "S_IFMT = 0xF000"

definition S_IFREG :: umode_t where
  "S_IFREG = 0x8000"

definition S_IFDIR :: umode_t where
  "S_IFDIR = 0x4000"


text \<open>
  Modelled from the spec: the constant \<^verbatim>\<open>VALID_MODES_MASK\<close> of \<^verbatim>\<open>hepunion.h\<close>, which is
  not among the sources. Section 3: the alterable permission and special bits, rwx for
  user, group and others plus setuid, setgid and sticky, that is octal 7777.
\<close>

definition VALID_MODES_MASK :: umode_t where
  "VALID_MODES_MASK = 0x0FFF"

text \<open>
  Modelled from the spec: the macro \<^verbatim>\<open>clear_mode_flags\<close> of \<^verbatim>\<open>hepunion.h\<close>, which is not
  among the sources. Section 3 composes the mode from \<^verbatim>\<open>M.mode & VALID_MODES_MASK\<close>, and
  \<^verbatim>\<open>get_file_attr_worker\<close> assigns the macro's value to the mode of the ME.
\<close>

definition clear_mode_flags :: "umode_t \<Rightarrow> umode_t" where
  "clear_mode_flags m = m AND VALID_MODES_MASK"

section \<open>Path mapper\<close>

datatype special = ME | WH

definition special_prefix :: "special \<Rightarrow> string" where
  "special_prefix t = (case t of ME \<Rightarrow> ''.me.'' | WH \<Rightarrow> ''.wh.'')"

text \<open>The part of a path after its last separator, and the part up to and with it.\<close>

definition name_part :: "string \<Rightarrow> string" where
  "name_part p = rev (takeWhile (\<lambda>c. c \<noteq> CHR ''/'') (rev p))"

definition dir_part :: "string \<Rightarrow> string" where
  "dir_part p = rev (dropWhile (\<lambda>c. c \<noteq> CHR ''/'') (rev p))"

text \<open>
  Modelled from the spec: the macros \<^verbatim>\<open>make_ro_path\<close> and \<^verbatim>\<open>make_rw_path\<close> of
  \<^verbatim>\<open>hepunion.h\<close>, which is not among the sources. Section 4.1: the branch root
  followed by the logical path. Callers compare the length with \<^verbatim>\<open>PATH_MAX\<close>.
\<close>

definition make_ro_path :: "hepunion_sb_info \<Rightarrow> string \<Rightarrow> string" where
  "make_ro_path context path = read_only_branch context @ path"

definition make_rw_path :: "hepunion_sb_info \<Rightarrow> string \<Rightarrow> string" where
  "make_rw_path context path = read_write_branch context @ path"

text \<open>
  Modelled from the spec: \<^verbatim>\<open>path_to_special\<close>, which is not among the sources.
  Section 4.1: split the logical path into parent and name and emit the RW root, the
  parent, the separator, the prefix of the kind and the name; \<open>EINVAL\<close> without a
  separator, \<open>ENAMETOOLONG\<close> beyond the path limit. The older \<^verbatim>\<open>find_me\<close> of the
  sources builds the ME path in the same way, with \<^verbatim>\<open>strrchr\<close>.
\<close>

definition path_to_special :: "string \<Rightarrow> special \<Rightarrow> hepunion_sb_info \<Rightarrow> errno + string" where
  "path_to_special path t context =
     (if CHR ''/'' \<notin> set path then Inl EINVAL
      else if length (read_write_branch context) + length path + 4 > PATH_MAX then Inl ENAMETOOLONG
      else Inr (read_write_branch context @ dir_part path @ special_prefix t @ name_part path))"

section \<open>Host primitives on the lower trees\<close>

definition lstat :: "string \<Rightarrow> fs \<Rightarrow> errno + kstat" where
  "lstat p fs = (case map_of fs p of None \<Rightarrow> Inl ENOENT | Some n \<Rightarrow> Inr (n_stat n))"

text \<open>
  The kernel's \<^verbatim>\<open>notify_change\<close>. It first overwrites the request: \<^verbatim>\<open>ia_ctime\<close> becomes the
  current time, and so do \<^verbatim>\<open>ia_atime\<close> unless \<^verbatim>\<open>ATTR_ATIME_SET\<close> is selected and
  \<^verbatim>\<open>ia_mtime\<close> unless \<^verbatim>\<open>ATTR_MTIME_SET\<close> is selected. Then the fields that \<^verbatim>\<open>ia_valid\<close>
  selects are copied into the inode.
\<close>

definition setattr_copy :: "iattr \<Rightarrow> kstat \<Rightarrow> kstat" where
  "setattr_copy attr st =
     st\<lparr> mode := (if ATTR_MODE \<in> ia_valid attr then ia_mode attr else mode st),
         uid := (if ATTR_UID \<in> ia_valid attr then ia_uid attr else uid st),
         gid := (if ATTR_GID \<in> ia_valid attr then ia_gid attr else gid st),
         fsize := (if ATTR_SIZE \<in> ia_valid attr then ia_size attr else fsize st),
         atime := (if ATTR_ATIME \<in> ia_valid attr then ia_atime attr else atime st),
         mtime := (if ATTR_MTIME \<in> ia_valid attr then ia_mtime attr else mtime st),
         ctime := (if ATTR_CTIME \<in> ia_valid attr then ia_ctime attr else ctime st) \<rparr>"

definition notify_change :: "host \<Rightarrow> string \<Rightarrow> iattr \<Rightarrow> fs \<Rightarrow> retval \<times> fs" where
  "notify_change h p attr fs =
     (let attr1 = attr\<lparr> ia_ctime := h_now h,
                        ia_atime := (if ATTR_ATIME_SET \<in> ia_valid attr then ia_atime attr
                                     else h_now h),
                        ia_mtime := (if ATTR_MTIME_SET \<in> ia_valid attr then ia_mtime attr
                                     else h_now h) \<rparr>
      in case map_of fs p of
           None \<Rightarrow> (Err ENOENT, fs)
         | Some n \<Rightarrow> (Ok, AList.update p (n\<lparr> n_stat := setattr_copy attr1 (n_stat n) \<rparr>) fs))"

text \<open>
  Modelled from the spec: \<^verbatim>\<open>creat_worker\<close>, which is not among the sources. Sections 3
  and 4.4: it creates a zero-size regular file with the alterable bits of the mode it is
  given; a file that exists is truncated. The owner and the times of a new file are the
  host's.
\<close>

definition new_file :: "host \<Rightarrow> umode_t \<Rightarrow> node" where
  "new_file h m =
     \<lparr> n_stat = \<lparr> mode = S_IFREG OR (m AND VALID_MODES_MASK), uid = h_fsuid h, gid = h_fsgid h,
                 fsize = 0, atime = h_now h, mtime = h_now h, ctime = h_now h \<rparr>,
       n_target = None \<rparr>"

definition creat_worker :: "host \<Rightarrow> string \<Rightarrow> umode_t \<Rightarrow> fs \<Rightarrow> errno + fs" where
  "creat_worker h p m fs =
     (case h_deny_create h p of
        Some e \<Rightarrow> Inl e
      | None \<Rightarrow>
         (case map_of fs p of
            None \<Rightarrow> Inr (AList.update p (new_file h m) fs)
          | Some n \<Rightarrow> Inr (AList.update p (n\<lparr> n_stat := (n_stat n)\<lparr> fsize := 0 \<rparr> \<rparr>) fs)))"

definition unlink :: "host \<Rightarrow> string \<Rightarrow> fs \<Rightarrow> retval \<times> fs" where
  "unlink h p fs =
     (case map_of fs p of
        None \<Rightarrow> (Err ENOENT, fs)
      | Some n \<Rightarrow>
         (case h_deny_unlink h p of
            Some e \<Rightarrow> (Err e, fs)
          | None \<Rightarrow> (Ok, AList.delete p fs)))"

section \<open>Branch resolver\<close>

datatype intent = ANY | MUST_READ_ONLY | MUST_READ_WRITE

text \<open>
  Modelled from the spec: \<^verbatim>\<open>find_file\<close>, which is not among the sources. Section 4.2:
  a whiteout hides the entry whatever the branches hold; otherwise the RW file wins unless
  the RO one is demanded, then the RO file unless the RW one is demanded. The flag
  \<^verbatim>\<open>CREATE_COPYUP\<close> is passed by \<^verbatim>\<open>hepunion_open\<close> alone, which is not modelled here; flag 0
  is \<open>ANY\<close>.
\<close>

definition find_file :: "string \<Rightarrow> hepunion_sb_info \<Rightarrow> intent \<Rightarrow> fs \<Rightarrow> errno + (string \<times> origin)" where
  "find_file path context flags fs =
     (case path_to_special path WH context of
        Inl e \<Rightarrow> Inl e
      | Inr wh_path \<Rightarrow>
          if map_of fs wh_path \<noteq> None then Inl ENOENT
          else if flags \<noteq> MUST_READ_ONLY \<and> map_of fs (make_rw_path context path) \<noteq> None
            then Inr (make_rw_path context path, READ_WRITE)
          else if flags \<noteq> MUST_READ_WRITE \<and> map_of fs (make_ro_path context path) \<noteq> None
            then Inr (make_ro_path context path, READ_ONLY)
          else Inl ENOENT)"

section \<open>Deported metadata: \<^verbatim>\<open>me.c\<close>\<close>

definition find_me :: "string \<Rightarrow> hepunion_sb_info \<Rightarrow> fs \<Rightarrow> errno + (string \<times> kstat)" where
  "find_me path context fs =
     (case path_to_special path ME context of
        Inl e \<Rightarrow> Inl e
      | Inr me_path \<Rightarrow>
         (case lstat me_path fs of
            Inl e \<Rightarrow> Inl e
          | Inr kstbuf \<Rightarrow> Inr (me_path, kstbuf)))"

definition get_file_attr_worker :: "string \<Rightarrow> string \<Rightarrow> hepunion_sb_info \<Rightarrow> fs \<Rightarrow> errno + kstat" where
  "get_file_attr_worker path real_path context fs =
     (let me = find_me path context fs in
      case lstat real_path fs of
        Inl e \<Rightarrow> Inl e
      | Inr kstbuf \<Rightarrow>
         (case me of
            Inl _ \<Rightarrow> Inr kstbuf
          | Inr (me_file, kstme) \<Rightarrow>
              Inr (kstbuf\<lparr> uid := uid kstme, gid := gid kstme,
                          atime := atime kstme, mtime := mtime kstme, ctime := ctime kstme,
                          mode := (mode kstbuf AND NOT VALID_MODES_MASK)
                                    OR clear_mode_flags (mode kstme) \<rparr>)))"

definition get_file_attr :: "string \<Rightarrow> hepunion_sb_info \<Rightarrow> fs \<Rightarrow> errno + kstat" where
  "get_file_attr path context fs =
     (case find_file path context ANY fs of
        Inl e \<Rightarrow> Inl e
      | Inr (real_path, origin) \<Rightarrow> get_file_attr_worker path real_path context fs)"

text \<open>
  \<^verbatim>\<open>create_me\<close>: the creation mode goes through \<^verbatim>\<open>clear_mode_flags\<close>; the attribute
  change that follows selects mode, owner, group, access and modification time. The
  fields \<^verbatim>\<open>ia_size\<close> and \<^verbatim>\<open>ia_ctime\<close> are filled in but not selected by \<^verbatim>\<open>ia_valid\<close>.
  The code writes the macro as a statement on the local variable \<^verbatim>\<open>mode\<close>, here and in
  \<^verbatim>\<open>set_me_worker\<close>; the model takes the variable to hold the cleared mode afterwards, as
  Section 4.4 of the spec has it. \<^verbatim>\<open>creat_worker\<close> keeps the alterable bits only, so the
  file that is created is the same under either reading of the statement.
\<close>

definition create_me :: "host \<Rightarrow> string \<Rightarrow> kstat \<Rightarrow> fs \<Rightarrow> retval \<times> fs" where
  "create_me h me_path kstbuf fs =
     (let m = clear_mode_flags (mode kstbuf) in
      case creat_worker h me_path m fs of
        Inl e \<Rightarrow> (Err e, fs)
      | Inr fs1 \<Rightarrow>
          notify_change h me_path
            \<lparr> ia_valid = {ATTR_MODE, ATTR_UID, ATTR_GID, ATTR_ATIME, ATTR_MTIME},
              ia_mode = mode kstbuf, ia_uid = uid kstbuf, ia_gid = gid kstbuf, ia_size = 0,
              ia_atime = atime kstbuf, ia_mtime = mtime kstbuf, ia_ctime = ctime kstbuf \<rparr> fs1)"

text \<open>
  \<^verbatim>\<open>set_me_worker\<close>. The macro \<^verbatim>\<open>is_flag_set\<close> of \<^verbatim>\<open>hepunion.h\<close> is not among the
  sources and the spec does not define it: it is the parameter \<open>is_flag_set\<close>, applied to
  the valid set and to the pair of flags that the code tests. When \<^verbatim>\<open>path_to_special\<close>
  fails, \<^verbatim>\<open>find_me\<close> fails and the code goes on with the buffer \<^verbatim>\<open>me_path\<close> as
  \<^verbatim>\<open>kmalloc\<close> returned it. The buffer \<^verbatim>\<open>real_path\<close> that \<^verbatim>\<open>find_path\<close> fills is the RW path of the
  logical path; here it is passed NULL.
\<close>

definition ME_ATTRS :: "attr_flag set" where
  "ME_ATTRS = {ATTR_UID, ATTR_GID, ATTR_ATIME, ATTR_MTIME, ATTR_MODE}"

text \<open>
  Modelled from the spec: \<^verbatim>\<open>find_path\<close>, which is not among the sources. Section 4.5:
  it walks the components of the logical path and for each missing RW directory either
  copies the attributes of the RO directory or creates a fresh directory. The mode of a
  fresh directory is the permissive 0777 with the host's owner.
\<close>

fun dir_chain :: "string \<Rightarrow> string \<Rightarrow> string list" where
  "dir_chain acc [] = []"
| "dir_chain acc (c # cs) =
     (if c = CHR ''/'' \<and> acc \<noteq> [] then [acc] else []) @ dir_chain (acc @ [c]) cs"

definition new_dir :: "host \<Rightarrow> node" where
  "new_dir h =
     \<lparr> n_stat = \<lparr> mode = S_IFDIR OR 0x01FF, uid = h_fsuid h, gid = h_fsgid h,
                 fsize = 0, atime = h_now h, mtime = h_now h, ctime = h_now h \<rparr>,
       n_target = None \<rparr>"

definition make_dir :: "host \<Rightarrow> hepunion_sb_info \<Rightarrow> string \<Rightarrow> fs \<Rightarrow> retval \<times> fs" where
  "make_dir h context d fs =
     (if map_of fs (make_rw_path context d) \<noteq> None then (Ok, fs)
      else case h_deny_create h (make_rw_path context d) of
          Some e \<Rightarrow> (Err e, fs)
        | None \<Rightarrow>
            (Ok, AList.update (make_rw_path context d)
                   (case map_of fs (make_ro_path context d) of
                      Some n \<Rightarrow> n
                    | None \<Rightarrow> new_dir h) fs))"

fun find_path_walk :: "host \<Rightarrow> hepunion_sb_info \<Rightarrow> string list \<Rightarrow> fs \<Rightarrow> retval \<times> fs" where
  "find_path_walk h context [] fs = (Ok, fs)"
| "find_path_walk h context (d # ds) fs =
     (case make_dir h context d fs of
        (Ok, fs1) \<Rightarrow> find_path_walk h context ds fs1
      | (r, fs1) \<Rightarrow> (r, fs1))"

definition find_path :: "host \<Rightarrow> string \<Rightarrow> hepunion_sb_info \<Rightarrow> fs \<Rightarrow> retval \<times> fs" where
  "find_path h path context fs = find_path_walk h context (dir_chain [] path) fs"

text \<open>\<^verbatim>\<open>open_worker\<close> of an existing lower file: it fails when the file is not there.\<close>

definition open_worker :: "string \<Rightarrow> fs \<Rightarrow> retval" where
  "open_worker p fs = (case map_of fs p of None \<Rightarrow> Err ENOENT | Some n \<Rightarrow> Ok)"

definition set_me_worker ::
  "(attr_flag set \<Rightarrow> attr_flag set \<Rightarrow> bool) \<Rightarrow> host \<Rightarrow> string \<Rightarrow> string \<Rightarrow> iattr
     \<Rightarrow> hepunion_sb_info \<Rightarrow> fs \<Rightarrow> retval \<times> fs" where
  "set_me_worker is_flag_set h path real_path attr0 context fs =
     (let attr = attr0\<lparr> ia_valid := ia_valid attr0 \<inter> ME_ATTRS \<rparr>;
          me_path = (case path_to_special path ME context of
                       Inr p \<Rightarrow> p
                     | Inl e \<Rightarrow> h_unset_path h)
      in (case find_me path context fs of
            Inl _ \<Rightarrow>
              (case lstat real_path fs of
                 Inl e \<Rightarrow> (Err e, fs)
               | Inr kstme \<Rightarrow>
                  (case find_path h path context fs of
                     (Ok, fs1) \<Rightarrow>
                       (let m = clear_mode_flags
                                  (if ATTR_MODE \<in> ia_valid attr then ia_mode attr else mode kstme) in
                        case creat_worker h me_path m fs1 of
                          Inl e \<Rightarrow> (Err e, fs1)
                        | Inr fs2 \<Rightarrow>
                           (let attr1 = attr\<lparr> ia_valid := ia_valid attr - {ATTR_MODE} \<rparr>;
                                attr2 = (if \<not> is_flag_set (ia_valid attr1) {ATTR_ATIME, ATTR_MTIME}
                                         then attr1\<lparr> ia_atime := atime kstme, ia_mtime := mtime kstme,
                                                     ia_valid := ia_valid attr1 \<union> {ATTR_ATIME, ATTR_MTIME} \<rparr>
                                         else attr1);
                                attr3 = (if \<not> is_flag_set (ia_valid attr2) {ATTR_UID, ATTR_GID}
                                         then attr2\<lparr> ia_uid := uid kstme, ia_gid := gid kstme,
                                                     ia_valid := ia_valid attr2 \<union> {ATTR_UID, ATTR_GID} \<rparr>
                                         else attr2)
                            in notify_change h me_path attr3 fs2))
                   | (r, fs1) \<Rightarrow> (r, fs1)))
          | Inr (me_file, kstme) \<Rightarrow>
              (case open_worker me_path fs of
                 Ok \<Rightarrow> (if ia_valid attr \<noteq> {} then notify_change h me_path attr fs
                        else (Ok, fs))
               | r \<Rightarrow> (r, fs))))"

section \<open>Whiteouts\<close>

text \<open>
  Modelled from the spec: \<^verbatim>\<open>create_whiteout\<close> and \<^verbatim>\<open>unlink_whiteout\<close>, which are not
  among the sources. Section 4.3: the first materialises the marker on the RW branch,
  creating intermediate directories as needed; the second removes the marker if present
  and succeeds when it is absent. The marker's mode is the owner's read bit; only its
  existence matters.
\<close>

definition create_whiteout :: "host \<Rightarrow> string \<Rightarrow> hepunion_sb_info \<Rightarrow> fs \<Rightarrow> retval \<times> fs" where
  "create_whiteout h path context fs =
     (case path_to_special path WH context of
        Inl e \<Rightarrow> (Err e, fs)
      | Inr wh_path \<Rightarrow>
         (case find_path h path context fs of
            (Ok, fs1) \<Rightarrow>
              (case creat_worker h wh_path 0x0100 fs1 of
                 Inl e \<Rightarrow> (Err e, fs1)
               | Inr fs2 \<Rightarrow> (Ok, fs2))
          | (r, fs1) \<Rightarrow> (r, fs1)))"

definition unlink_whiteout :: "host \<Rightarrow> string \<Rightarrow> hepunion_sb_info \<Rightarrow> fs \<Rightarrow> retval \<times> fs" where
  "unlink_whiteout h path context fs =
     (case path_to_special path WH context of
        Inl e \<Rightarrow> (Err e, fs)
      | Inr wh_path \<Rightarrow>
          if map_of fs wh_path = None then (Ok, fs) else unlink h wh_path fs)"

section \<open>Credential checks and lower-level helpers\<close>

text \<open>
  Modelled from the spec: \<^verbatim>\<open>can_create\<close> and \<^verbatim>\<open>can_remove\<close>, which are not among the
  sources. Section 7: the credential check is delegated to the host; 0 when granted, a
  negative errno otherwise.
\<close>

definition can_create :: "host \<Rightarrow> string \<Rightarrow> string \<Rightarrow> retval" where
  "can_create h path real_path = (case h_can_create h path of None \<Rightarrow> Ok | Some e \<Rightarrow> Err e)"

definition can_remove :: "host \<Rightarrow> string \<Rightarrow> string \<Rightarrow> retval" where
  "can_remove h path real_path = (case h_can_remove h path of None \<Rightarrow> Ok | Some e \<Rightarrow> Err e)"

text \<open>
  Modelled from the spec: \<^verbatim>\<open>unlink_rw_file\<close>, which is not among the sources. Section
  4.8: unlink the RW file; if a corresponding RO file exists, also create a whiteout.
\<close>

definition unlink_rw_file :: "host \<Rightarrow> string \<Rightarrow> string \<Rightarrow> hepunion_sb_info \<Rightarrow> fs \<Rightarrow> retval \<times> fs" where
  "unlink_rw_file h path real_path context fs =
     (let has_ro = (map_of fs (make_ro_path context path) \<noteq> None) in
      case unlink h real_path fs of
        (Ok, fs1) \<Rightarrow> if has_ro then create_whiteout h path context fs1 else (Ok, fs1)
      | (r, fs1) \<Rightarrow> (r, fs1))"



text \<open>
  Modelled from the spec: the macros \<^verbatim>\<open>is_me\<close> and \<^verbatim>\<open>is_whiteout\<close> of \<^verbatim>\<open>hepunion.h\<close>,
  which is not among the sources. Section 3: the name starts with \<^verbatim>\<open>.me.\<close>, with
  \<^verbatim>\<open>.wh.\<close>.
\<close>

definition is_me :: "string \<Rightarrow> bool" where
  "is_me name = (take 4 name = ''.me.'')"

definition is_whiteout :: "string \<Rightarrow> bool" where
  "is_whiteout name = (take 4 name = ''.wh.'')"

text \<open>The names that the lower tree stores directly under a directory, in its order.\<close>

definition children :: "string \<Rightarrow> fs \<Rightarrow> string list" where
  "children d fs =
     (let dd = (if d \<noteq> [] \<and> last d = CHR ''/'' then d else d @ ''/'')
      in map (\<lambda>(p, n). name_part p) (filter (\<lambda>(p, n). dir_part p = dd \<and> name_part p \<noteq> []) fs))"

text \<open>
  Modelled from the spec: \<^verbatim>\<open>is_empty_dir\<close>, which is not among the sources. Section
  4.8: emptiness is computed over the merged view, the RO entries without those that a
  whiteout covers, and the RW entries without the reserved names. The result is 0 for an
  empty directory and negative otherwise.
\<close>

definition is_empty_dir ::
  "string \<Rightarrow> string option \<Rightarrow> string option \<Rightarrow> hepunion_sb_info \<Rightarrow> fs \<Rightarrow> retval" where
  "is_empty_dir path ro_path rw_path context fs =
     (let ro_names = (case ro_path of None \<Rightarrow> [] | Some r \<Rightarrow> children r fs);
          rw_all = (case rw_path of None \<Rightarrow> [] | Some r \<Rightarrow> children r fs);
          whiteouts = map (drop 4) (filter is_whiteout rw_all);
          rw_names = filter (\<lambda>n. \<not> is_me n \<and> \<not> is_whiteout n) rw_all
      in if filter (\<lambda>n. n \<notin> set whiteouts) ro_names @ rw_names = [] then Ok
         else Err ENOTEMPTY)"

text \<open>Lower-level \<^verbatim>\<open>rmdir\<close>: the lower file system refuses a directory that has entries.\<close>

definition rmdir :: "host \<Rightarrow> string \<Rightarrow> fs \<Rightarrow> retval \<times> fs" where
  "rmdir h p fs =
     (case map_of fs p of
        None \<Rightarrow> (Err ENOENT, fs)
      | Some n \<Rightarrow>
          if children p fs \<noteq> [] then (Err ENOTEMPTY, fs)
          else (case h_deny_unlink h p of
                  Some e \<Rightarrow> (Err e, fs)
                | None \<Rightarrow> (Ok, AList.delete p fs)))"

section \<open>Operations: \<^verbatim>\<open>opts.c\<close>\<close>

text \<open>
  Every operation receives in \<open>rel\<close> what \<^verbatim>\<open>get_relative_path\<close> or
  \<^verbatim>\<open>get_relative_path_for_file\<close> left in the buffer \<^verbatim>\<open>path\<close>: the logical path, or the
  error with which the operation returns at once. The inode and dentry bookkeeping of the
  VFS is not part of the state.
\<close>

definition hepunion_create ::
  "host \<Rightarrow> errno + string \<Rightarrow> umode_t \<Rightarrow> hepunion_sb_info \<Rightarrow> fs \<Rightarrow> retval \<times> fs" where
  "hepunion_create h rel m context fs =
     (case rel of
        Inl e \<Rightarrow> (Err e, fs)
      | Inr path \<Rightarrow>
         (case find_file path context ANY fs of
            Inr found \<Rightarrow> (Err EEXIST, fs)
          | Inl _ \<Rightarrow>
             (case find_path h path context fs of
                (Ok, fs1) \<Rightarrow>
                  (let real_path = make_rw_path context path in
                   case can_create h path real_path of
                     Ok \<Rightarrow>
                       (case creat_worker h real_path m fs1 of
                          Inl e \<Rightarrow> (Err e, fs1)
                        | Inr fs2 \<Rightarrow>
                           (case notify_change h real_path
                                   \<lparr> ia_valid = {ATTR_UID, ATTR_GID}, ia_mode = 0,
                                     ia_uid = h_fsuid h, ia_gid = h_fsgid h, ia_size = 0,
                                     ia_atime = 0, ia_mtime = 0, ia_ctime = 0 \<rparr> fs2 of
                              (Ok, fs3) \<Rightarrow> (Ok, snd (unlink_whiteout h path context fs3))
                            | (r, fs3) \<Rightarrow> (r, snd (unlink h real_path fs3))))
                   | r \<Rightarrow> (r, fs1))
              | (r, fs1) \<Rightarrow> (r, fs1))))"

definition hepunion_getattr :: "errno + string \<Rightarrow> hepunion_sb_info \<Rightarrow> fs \<Rightarrow> errno + kstat" where
  "hepunion_getattr rel context fs =
     (case rel of
        Inl e \<Rightarrow> Inl e
      | Inr path \<Rightarrow> get_file_attr path context fs)"


definition hepunion_setattr ::
  "(attr_flag set \<Rightarrow> attr_flag set \<Rightarrow> bool) \<Rightarrow> host \<Rightarrow> errno + string \<Rightarrow> iattr
     \<Rightarrow> hepunion_sb_info \<Rightarrow> fs \<Rightarrow> retval \<times> fs" where
  "hepunion_setattr is_flag_set h rel attr context fs =
     (case rel of
        Inl e \<Rightarrow> (Err e, fs)
      | Inr path \<Rightarrow>
         (case find_file path context ANY fs of
            Inl e \<Rightarrow> (Err e, fs)
          | Inr (real_path, origin) \<Rightarrow>
              if origin = READ_WRITE \<or> origin = READ_WRITE_COPYUP
              then notify_change h real_path attr fs
              else set_me_worker is_flag_set h path real_path attr context fs))"

text \<open>
  \<^verbatim>\<open>hepunion_unlink\<close>: the \<^verbatim>\<open>switch\<close> on the result of \<^verbatim>\<open>find_file\<close>. A negative result
  goes through the default case and is returned. The declaration \<^verbatim>\<open>int has_me = 0;\<close>
  stands between the \<^verbatim>\<open>switch\<close> and its first \<^verbatim>\<open>case\<close> label, so the initialiser never
  runs: when no ME is found, \<^verbatim>\<open>has_me\<close> holds what the stack held, and after a failed
  \<^verbatim>\<open>create_whiteout\<close> the code reads it and may call \<^verbatim>\<open>create_me\<close> with the \<^verbatim>\<open>kstbuf\<close>
  that the failed \<^verbatim>\<open>find_me\<close> left unset. The same holds for \<^verbatim>\<open>hepunion_rmdir\<close>.
\<close>

definition hepunion_unlink ::
  "host \<Rightarrow> errno + string \<Rightarrow> hepunion_sb_info \<Rightarrow> fs \<Rightarrow> retval \<times> fs" where
  "hepunion_unlink h rel context fs =
     (case rel of
        Inl e \<Rightarrow> (Err e, fs)
      | Inr path \<Rightarrow>
         (case find_file path context ANY fs of
            Inl e \<Rightarrow> (Err e, fs)
          | Inr (real_path, READ_WRITE_COPYUP) \<Rightarrow> unlink_rw_file h path real_path context fs
          | Inr (real_path, READ_WRITE) \<Rightarrow> unlink_rw_file h path real_path context fs
          | Inr (real_path, READ_ONLY) \<Rightarrow>
             (case can_remove h path real_path of
                Ok \<Rightarrow>
                  (case find_me path context fs of
                     Inr (me_path, kstbuf) \<Rightarrow>
                       (case unlink h me_path fs of
                          (Ok, fs1) \<Rightarrow>
                            (case create_whiteout h path context fs1 of
                               (Err e, fs2) \<Rightarrow> (Err e, snd (create_me h me_path kstbuf fs2))
                             | (r, fs2) \<Rightarrow> (r, fs2))
                        | (r, fs1) \<Rightarrow> (r, fs1))
                   | Inl _ \<Rightarrow>
                       (case create_whiteout h path context fs of
                          (Err e, fs2) \<Rightarrow>
                            if h_unset_flag h
                            then (Err e, snd (create_me h
                                    (case path_to_special path ME context of
                                       Inr p \<Rightarrow> p
                                     | Inl _ \<Rightarrow> h_unset_path h)
                                    (h_unset_stat h) fs2))
                            else (Err e, fs2)
                        | (r, fs2) \<Rightarrow> (r, fs2)))
              | r \<Rightarrow> (r, fs))))"

text \<open>
  \<^verbatim>\<open>hepunion_rmdir\<close>. In the read-only case the code tests \<^verbatim>\<open>!can_remove(...)\<close>: it
  leaves the \<^verbatim>\<open>switch\<close> when \<^verbatim>\<open>can_remove\<close> returned 0, and \<^verbatim>\<open>err\<close> still holds the tag
  that \<^verbatim>\<open>find_file\<close> returned. In the read-write case a failed \<^verbatim>\<open>create_whiteout\<close>
  leaves the \<^verbatim>\<open>switch\<close> with the result of \<^verbatim>\<open>is_empty_dir\<close> in \<^verbatim>\<open>err\<close>. The buffer
  \<^verbatim>\<open>wh_path\<close> is filled only when \<^verbatim>\<open>create_whiteout\<close> ran; after a failed \<^verbatim>\<open>rmdir\<close> the
  code unlinks what the buffer holds in either case.
\<close>

definition hepunion_rmdir ::
  "host \<Rightarrow> errno + string \<Rightarrow> hepunion_sb_info \<Rightarrow> fs \<Rightarrow> retval \<times> fs" where
  "hepunion_rmdir h rel context fs =
     (case rel of
        Inl e \<Rightarrow> (Err e, fs)
      | Inr path \<Rightarrow>
         (case find_file path context ANY fs of
            Inl e \<Rightarrow> (Err e, fs)
          | Inr (real_path, READ_ONLY) \<Rightarrow>
              if can_remove h path real_path = Ok then (Tag READ_ONLY, fs)
              else
                (case is_empty_dir path (Some real_path) None context fs of
                   Err e \<Rightarrow> (Err ENOTEMPTY, fs)
                 | _ \<Rightarrow>
                    (case find_me path context fs of
                       Inr (me_path, kstbuf) \<Rightarrow>
                         (case unlink h me_path fs of
                            (Err e, fs1) \<Rightarrow> (Err e, fs1)
                          | (_, fs1) \<Rightarrow>
                             (case create_whiteout h path context fs1 of
                                (Err e, fs2) \<Rightarrow> (Err e, snd (create_me h me_path kstbuf fs2))
                              | (r, fs2) \<Rightarrow> (r, fs2)))
                     | Inl _ \<Rightarrow>
                         (case create_whiteout h path context fs of
                            (Err e, fs2) \<Rightarrow>
                              if h_unset_flag h
                              then (Err e, snd (create_me h
                                      (case path_to_special path ME context of
                                         Inr p \<Rightarrow> p
                                       | Inl _ \<Rightarrow> h_unset_path h)
                                      (h_unset_stat h) fs2))
                              else (Err e, fs2)
                          | (r, fs2) \<Rightarrow> (r, fs2))))
          | Inr (real_path, rw_origin) \<Rightarrow>
             (let ro = find_file path context MUST_READ_ONLY fs;
                  has_ro = (case ro of Inr found \<Rightarrow> True | Inl _ \<Rightarrow> False);
                  ro_path = (case ro of Inr (p, t) \<Rightarrow> Some p | Inl _ \<Rightarrow> None)
              in case can_remove h path real_path of
                   Err e \<Rightarrow> (Err e, fs)
                 | _ \<Rightarrow>
                    (case is_empty_dir path ro_path (Some real_path) context fs of
                       Err e \<Rightarrow> (Err ENOTEMPTY, fs)
                     | r0 \<Rightarrow>
                        (if has_ro then
                           (case create_whiteout h path context fs of
                              (Err e, fs1) \<Rightarrow> (r0, fs1)
                            | (_, fs1) \<Rightarrow>
                               (case rmdir h real_path fs1 of
                                  (Err e, fs2) \<Rightarrow>
                                    (case path_to_special path WH context of
                                       Inr wh_path \<Rightarrow> (Err e, snd (unlink h wh_path fs2))
                                     | Inl _ \<Rightarrow> (Err e, snd (unlink h (h_unset_path h) fs2)))
                                | (r, fs2) \<Rightarrow> (r, fs2)))
                         else
                           (case rmdir h real_path fs of
                              (Err e, fs2) \<Rightarrow> (Err e, snd (unlink h (h_unset_path h) fs2))
                            | (r, fs2) \<Rightarrow> (r, fs2)))))))"

section \<open>Directory listing: \<^verbatim>\<open>read_rw_branch\<close>, \<^verbatim>\<open>read_ro_branch\<close>, \<^verbatim>\<open>hepunion_readdir\<close>\<close>


record readdir_file =
  d_name :: string
  d_reclen :: nat
  ino :: nat
  type :: nat

record opendir_context =
  ro_path :: string
  rw_path :: string
  files_head :: "readdir_file list"
  whiteouts_head :: "readdir_file list"







section \<open>The merge rule in the spec's words\<close>

text \<open>
  Section 4.4 names the rule \<^verbatim>\<open>merge_attr(data_stat, me_stat)\<close>; Section 3 states it: owner,
  group and the three times come from the ME, the mode keeps the bits of the data file
  outside \<^verbatim>\<open>VALID_MODES_MASK\<close> and takes the bits of the ME inside it. The code has no
  function of this name: the rule is inline in \<^verbatim>\<open>get_file_attr_worker\<close>.
\<close>

definition merge_attr :: "kstat \<Rightarrow> kstat \<Rightarrow> kstat" where
  "merge_attr D M =
     D\<lparr> uid := uid M, gid := gid M, atime := atime M, mtime := mtime M, ctime := ctime M,
        mode := (mode D AND NOT VALID_MODES_MASK) OR (mode M AND VALID_MODES_MASK) \<rparr>"

section \<open>Example trees\<close>

text \<open>
  The branches of the examples are \<^verbatim>\<open>/ro\<close> and \<^verbatim>\<open>/rw\<close>; the host grants every check and
  injects no fault, its clock shows 99 and the caller is root. Memory that the code reads
  before writing it holds a flag other than 0, a stat with mode \<open>0xFFFF\<close>, owner 4242 and
  group 4343, and the path \<^verbatim>\<open>?\<close>.
\<close>

abbreviation ex_context :: hepunion_sb_info where
  "ex_context \<equiv> \<lparr> read_only_branch = ''/ro'', read_write_branch = ''/rw'' \<rparr>"

abbreviation ex_host :: host where
  "ex_host \<equiv> \<lparr> h_now = 99, h_fsuid = 0, h_fsgid = 0, h_deny_create = (\<lambda>p. None),
                h_deny_unlink = (\<lambda>p. None), h_can_create = (\<lambda>p. None),
                h_can_remove = (\<lambda>p. None), h_unset_flag = True,
                h_unset_stat = \<lparr> mode = 0xFFFF, uid = 4242, gid = 4343, fsize = 4444,
                                 atime = 4545, mtime = 4646, ctime = 4747 \<rparr>,
                h_unset_path = ''?'' \<rparr>"

abbreviation ex_dir :: node where
  "ex_dir \<equiv> \<lparr> n_stat = \<lparr> mode = 0x41ED, uid = 1000, gid = 1000, fsize = 0,
                          atime = 1, mtime = 2, ctime = 3 \<rparr>, n_target = None \<rparr>"

abbreviation ex_file :: node where
  "ex_file \<equiv> \<lparr> n_stat = \<lparr> mode = 0x81A4, uid = 1000, gid = 1000, fsize = 5,
                           atime = 1, mtime = 2, ctime = 3 \<rparr>, n_target = None \<rparr>"

abbreviation ex_me :: node where
  "ex_me \<equiv> \<lparr> n_stat = \<lparr> mode = 0x8180, uid = 7, gid = 8, fsize = 0,
                         atime = 10, mtime = 20, ctime = 30 \<rparr>, n_target = None \<rparr>"

section \<open>Properties\<close>

subsection \<open>Path mapper and resolver\<close>

lemma lstat_Some: "map_of fs p = Some n \<Longrightarrow> lstat p fs = Inr (n_stat n)"
  by (simp add: lstat_def)

lemma lstat_None: "map_of fs p = None \<Longrightarrow> lstat p fs = Inl ENOENT"
  by (simp add: lstat_def)

lemma find_me_Some:
  "path_to_special path ME context = Inr me_path \<Longrightarrow> map_of fs me_path = Some mn
     \<Longrightarrow> find_me path context fs = Inr (me_path, n_stat mn)"
  by (simp add: find_me_def lstat_def)


lemma find_file_ro_only:
  "path_to_special path WH context = Inr wh_path \<Longrightarrow> map_of fs wh_path = None
     \<Longrightarrow> map_of fs (make_rw_path context path) = None
     \<Longrightarrow> map_of fs (make_ro_path context path) = Some dn
     \<Longrightarrow> find_file path context ANY fs = Inr (make_ro_path context path, READ_ONLY)"
  by (simp add: find_file_def)


lemmas path_eval =
  path_to_special_def PATH_MAX_def dir_part_def name_part_def special_prefix_def
  make_rw_path_def make_ro_path_def

subsection \<open>The merge of \<^verbatim>\<open>get_file_attr_worker\<close>\<close>

lemma get_file_attr_worker_eq:
  "get_file_attr_worker path real_path context fs =
     (case lstat real_path fs of
        Inl e \<Rightarrow> Inl e
      | Inr D \<Rightarrow>
         (case find_me path context fs of
            Inl e \<Rightarrow> Inr D
          | Inr (mp, M) \<Rightarrow> Inr (merge_attr D M)))"
  by (simp add: get_file_attr_worker_def merge_attr_def clear_mode_flags_def Let_def
           split: sum.splits prod.splits)

lemma mask_out: "((d AND NOT m) OR (k AND m)) AND NOT m = d AND NOT (m::umode_t)"
  by (simp add: bit_eq_iff bit_simps) blast

lemma mask_keep: "((d AND NOT m) OR (k AND m)) AND m = k AND (m::umode_t)"
  by (simp add: bit_eq_iff bit_simps) blast

lemma ifmt_keep:
  "((d AND NOT VALID_MODES_MASK) OR (k AND VALID_MODES_MASK)) AND S_IFMT = d AND S_IFMT"
proof -
  have a: "S_IFMT = NOT VALID_MODES_MASK"
    by (simp add: S_IFMT_def VALID_MODES_MASK_def)
  show ?thesis unfolding a by (rule mask_out)
qed

text \<open>
  C5. A path that resolves on the RO branch only and has an ME sidecar gets owner, group
  and the three times of the ME; its mode is the mode of the RO file outside
  \<^verbatim>\<open>VALID_MODES_MASK\<close> joined with the mode of the ME inside it, so the file-type bits are
  those of the RO file. Everything else, such as the size, is that of the RO file.
\<close>

theorem me_merge_ro_only:
  assumes "path_to_special path WH context = Inr wh_path"
      and "map_of fs wh_path = None"
      and "map_of fs (make_rw_path context path) = None"
      and "map_of fs (make_ro_path context path) = Some dn"
      and "path_to_special path ME context = Inr me_path"
      and "map_of fs me_path = Some mn"
  shows "get_file_attr path context fs =
           Inr ((n_stat dn)\<lparr> uid := uid (n_stat mn), gid := gid (n_stat mn),
                  atime := atime (n_stat mn), mtime := mtime (n_stat mn),
                  ctime := ctime (n_stat mn),
                  mode := (mode (n_stat dn) AND NOT VALID_MODES_MASK)
                            OR (mode (n_stat mn) AND VALID_MODES_MASK) \<rparr>)
         \<and> ((mode (n_stat dn) AND NOT VALID_MODES_MASK)
                OR (mode (n_stat mn) AND VALID_MODES_MASK)) AND S_IFMT
             = mode (n_stat dn) AND S_IFMT
         \<and> ((mode (n_stat dn) AND NOT VALID_MODES_MASK)
                OR (mode (n_stat mn) AND VALID_MODES_MASK)) AND VALID_MODES_MASK
             = mode (n_stat mn) AND VALID_MODES_MASK"
proof -
  have "get_file_attr path context fs = Inr (merge_attr (n_stat dn) (n_stat mn))"
    using assms
    by (simp add: get_file_attr_def find_file_ro_only get_file_attr_worker_eq lstat_Some
          find_me_Some)
  then show ?thesis
    by (simp add: merge_attr_def ifmt_keep mask_keep)
qed

theorem me_merge_ro_only_witness:
  "get_file_attr ''/a/d'' ex_context [(''/ro/a/d'', ex_dir), (''/rw/a/.me.d'', ex_me)] =
     Inr \<lparr> mode = 0x4180, uid = 7, gid = 8, fsize = 0, atime = 10, mtime = 20, ctime = 30 \<rparr>"
proof -
  let ?fs = "[(''/ro/a/d'', ex_dir), (''/rw/a/.me.d'', ex_me)]"
  have h1: "path_to_special ''/a/d'' WH ex_context = Inr ''/rw/a/.wh.d''"
    by (simp add: path_eval)
  have h2: "map_of ?fs ''/rw/a/.wh.d'' = None"
    by simp
  have h3: "map_of ?fs (make_rw_path ex_context ''/a/d'') = None"
    by (simp add: path_eval)
  have h4: "map_of ?fs (make_ro_path ex_context ''/a/d'') = Some ex_dir"
    by (simp add: path_eval)
  have h5: "path_to_special ''/a/d'' ME ex_context = Inr ''/rw/a/.me.d''"
    by (simp add: path_eval)
  have h6: "map_of ?fs ''/rw/a/.me.d'' = Some ex_me"
    by simp
  show ?thesis
    using me_merge_ro_only [OF h1 h2 h3 h4 h5 h6]
    by (simp add: VALID_MODES_MASK_def)
qed




subsection \<open>Paths that \<^verbatim>\<open>find_path\<close> leaves alone\<close>



lemma path_to_special_kinds:
  "path_to_special path ME context = Inr a \<Longrightarrow> path_to_special path WH context = Inr b \<Longrightarrow> a \<noteq> b"
  by (auto simp: path_to_special_def special_prefix_def split: if_splits)

lemma path_to_special_both:
  "path_to_special path t context = Inr a \<Longrightarrow> \<exists>b. path_to_special path t' context = Inr b"
  by (auto simp: path_to_special_def split: if_splits)










subsection \<open>What \<^verbatim>\<open>set_me_worker\<close> writes\<close>

lemma ME_ATTRS_mem:
  "ATTR_MODE \<in> ME_ATTRS" "ATTR_UID \<in> ME_ATTRS" "ATTR_GID \<in> ME_ATTRS"
  "ATTR_ATIME \<in> ME_ATTRS" "ATTR_MTIME \<in> ME_ATTRS"
  "ATTR_SIZE \<notin> ME_ATTRS" "ATTR_CTIME \<notin> ME_ATTRS"
  "ATTR_ATIME_SET \<notin> ME_ATTRS" "ATTR_MTIME_SET \<notin> ME_ATTRS"
  by (simp_all add: ME_ATTRS_def)

lemma setattr_copy_none: "ia_valid a = {} \<Longrightarrow> setattr_copy a st = st"
  by (simp add: setattr_copy_def)

lemma set_me_worker_existing:
  assumes "path_to_special path ME context = Inr me_path"
      and "map_of fs me_path = Some mn"
  shows "fst (set_me_worker isf h path real_path attr context fs) = Ok
         \<and> map_of (snd (set_me_worker isf h path real_path attr context fs)) =
             (map_of fs)(me_path \<mapsto>
                mn\<lparr> n_stat := setattr_copy
                               (attr\<lparr> ia_valid := ia_valid attr \<inter> ME_ATTRS,
                                      ia_atime := h_now h, ia_mtime := h_now h,
                                      ia_ctime := h_now h \<rparr>) (n_stat mn) \<rparr>)"
proof (cases "ia_valid attr \<inter> ME_ATTRS = {}")
  case True
  have "setattr_copy (attr\<lparr> ia_valid := ia_valid attr \<inter> ME_ATTRS,
                            ia_atime := h_now h, ia_mtime := h_now h,
                            ia_ctime := h_now h \<rparr>) (n_stat mn) = n_stat mn"
    using True by (simp add: setattr_copy_none)
  moreover have "(map_of fs)(me_path \<mapsto> mn) = map_of fs"
    using assms(2) by (simp add: fun_upd_idem)
  ultimately show ?thesis
    using assms True
    by (simp add: set_me_worker_def find_me_Some open_worker_def Let_def)
next
  case False
  then show ?thesis
    using assms
    by (simp add: set_me_worker_def find_me_Some open_worker_def Let_def notify_change_def
          update_conv' setattr_copy_def ME_ATTRS_mem)
qed

lemma notify_change_unselected:
  "ATTR_SIZE \<notin> ia_valid a \<Longrightarrow> ATTR_CTIME \<notin> ia_valid a
     \<Longrightarrow> notify_change h p (a\<lparr> ia_size := s, ia_ctime := c \<rparr>) fs = notify_change h p a fs"
  by (simp add: notify_change_def setattr_copy_def split: option.splits)

lemma set_me_worker_unselected:
  assumes v: "ATTR_SIZE \<notin> ia_valid a" "ATTR_CTIME \<notin> ia_valid a"
  shows "set_me_worker isf h path real_path (a\<lparr> ia_size := s, ia_ctime := c \<rparr>) context fs
           = set_me_worker isf h path real_path a context fs"
proof (cases "find_me path context fs")
  case (Inr r)
  obtain mf kstme where r: "r = (mf, kstme)" by (cases r)
  show ?thesis
    using v
    by (simp add: set_me_worker_def Inr r Let_def notify_change_def setattr_copy_def
          ME_ATTRS_mem split: retval.splits option.splits)
next
  case fm: (Inl e)
  show ?thesis
  proof (cases "lstat real_path fs")
    case (Inl e2)
    then show ?thesis by (simp add: set_me_worker_def fm)
  next
    case ls: (Inr kstme)
    obtain r fs1 where fp: "find_path h path context fs = (r, fs1)"
      by (cases "find_path h path context fs")
    show ?thesis
    proof (cases r)
      case Ok
      show ?thesis
        using v
        by (simp add: set_me_worker_def fm ls fp Ok Let_def notify_change_def
              setattr_copy_def ME_ATTRS_mem split: sum.splits option.splits)
    qed (simp_all add: set_me_worker_def fm ls fp)
  qed
qed

subsection \<open>Creating and updating an ME\<close>

text \<open>
  C6, as the code has it. On an ME path that holds no file yet and that the host lets it
  create, \<^verbatim>\<open>create_me\<close> creates a zero-size regular file whose creation mode is the
  alterable part of the mode of the stat, then applies one attribute change whose valid
  set is mode, owner, group, access time and modification time. Mode, owner and group of
  the ME are then those of the stat. The change time is filled in but not selected: it
  is the time of creation. A following \<^verbatim>\<open>find_me\<close> yields the mode, owner and group of
  the stat, size 0 and the creation time as change time. The access and modification
  time are requested without \<^verbatim>\<open>ATTR_ATIME_SET\<close> and \<^verbatim>\<open>ATTR_MTIME_SET\<close>, so what the ME holds
  for them is what \<^verbatim>\<open>notify_change\<close> makes of such a request; the statement does not
  rest on it.
\<close>

theorem create_me_then_find_me:
  assumes "path_to_special path ME context = Inr me_path"
      and "map_of fs me_path = None"
      and "h_deny_create h me_path = None"
  shows "create_me h me_path kstbuf fs =
           notify_change h me_path
             \<lparr> ia_valid = {ATTR_MODE, ATTR_UID, ATTR_GID, ATTR_ATIME, ATTR_MTIME},
               ia_mode = mode kstbuf, ia_uid = uid kstbuf, ia_gid = gid kstbuf, ia_size = 0,
               ia_atime = atime kstbuf, ia_mtime = mtime kstbuf, ia_ctime = ctime kstbuf \<rparr>
             (AList.update me_path
                \<lparr> n_stat = \<lparr> mode = S_IFREG OR (mode kstbuf AND VALID_MODES_MASK),
                            uid = h_fsuid h, gid = h_fsgid h, fsize = 0,
                            atime = h_now h, mtime = h_now h, ctime = h_now h \<rparr>,
                  n_target = None \<rparr> fs)
         \<and> fst (create_me h me_path kstbuf fs) = Ok
         \<and> (\<exists>st. find_me path context (snd (create_me h me_path kstbuf fs)) = Inr (me_path, st)
                \<and> mode st = mode kstbuf \<and> uid st = uid kstbuf \<and> gid st = gid kstbuf
                \<and> fsize st = 0 \<and> ctime st = h_now h)"
  using assms
  by (simp add: create_me_def creat_worker_def notify_change_def update_conv' new_file_def
        setattr_copy_def find_me_def lstat_def clear_mode_flags_def and.assoc)

theorem create_me_then_find_me_witness:
  "\<exists>st. find_me ''/a/b'' ex_context (snd (create_me ex_host ''/rw/a/.me.b'' (n_stat ex_file) []))
           = Inr (''/rw/a/.me.b'', st)
        \<and> mode st = 0x81A4 \<and> uid st = 1000 \<and> gid st = 1000 \<and> fsize st = 0 \<and> ctime st = 99"
proof -
  have h1: "path_to_special ''/a/b'' ME ex_context = Inr ''/rw/a/.me.b''"
    by (simp add: path_eval)
  have h2: "map_of ([] :: fs) ''/rw/a/.me.b'' = None"
    by simp
  have h3: "h_deny_create ex_host ''/rw/a/.me.b'' = None"
    by simp
  show ?thesis
    using create_me_then_find_me [OF h1 h2 h3, of "n_stat ex_file", THEN conjunct2, THEN conjunct2]
    by simp
qed

text \<open>
  C6 as stated fails on the change time: the stat says 3, the clock of the host shows 99,
  and the ME that \<^verbatim>\<open>find_me\<close> sees after \<^verbatim>\<open>create_me\<close> has change time 99. Its access and
  modification time are 99 as well, the time that \<^verbatim>\<open>notify_change\<close> stores when the
  request does not carry \<^verbatim>\<open>ATTR_ATIME_SET\<close> and \<^verbatim>\<open>ATTR_MTIME_SET\<close>.
\<close>

theorem create_me_ctime_counterexample:
  "ctime (n_stat ex_file) = 3
   \<and> fst (create_me ex_host ''/rw/a/.me.b'' (n_stat ex_file) []) = Ok
   \<and> find_me ''/a/b'' ex_context (snd (create_me ex_host ''/rw/a/.me.b'' (n_stat ex_file) [])) =
       Inr (''/rw/a/.me.b'', \<lparr> mode = 0x81A4, uid = 1000, gid = 1000, fsize = 0,
                                atime = 99, mtime = 99, ctime = 99 \<rparr>)"
  by (simp add: create_me_def creat_worker_def notify_change_def new_file_def
        setattr_copy_def find_me_def lstat_def clear_mode_flags_def path_eval)

text \<open>
  C10. \<^verbatim>\<open>set_me_worker\<close> restricts the requested set to owner, group, access time,
  modification time and mode before anything else: its result is the same as for the
  restricted request, whatever the requested size and change time are. When the ME
  exists, the call succeeds, the size, the change time and the link target of the ME are
  what they were, and no other path of the tree changes.
\<close>

theorem set_me_worker_masks:
  "set_me_worker isf h path real_path attr context fs =
     set_me_worker isf h path real_path
       (attr\<lparr> ia_valid := ia_valid attr \<inter> {ATTR_UID, ATTR_GID, ATTR_ATIME, ATTR_MTIME, ATTR_MODE},
              ia_size := s, ia_ctime := c \<rparr>) context fs
   \<and> (path_to_special path ME context = Inr me_path \<longrightarrow> map_of fs me_path = Some mn \<longrightarrow>
        fst (set_me_worker isf h path real_path attr context fs) = Ok
        \<and> (\<exists>mn'. map_of (snd (set_me_worker isf h path real_path attr context fs)) me_path = Some mn'
              \<and> fsize (n_stat mn') = fsize (n_stat mn)
              \<and> ctime (n_stat mn') = ctime (n_stat mn)
              \<and> n_target mn' = n_target mn)
        \<and> (\<forall>q. q \<noteq> me_path \<longrightarrow>
              map_of (snd (set_me_worker isf h path real_path attr context fs)) q = map_of fs q))"
proof (intro conjI impI)
  let ?b = "attr\<lparr> ia_valid := ia_valid attr \<inter> {ATTR_UID, ATTR_GID, ATTR_ATIME, ATTR_MTIME, ATTR_MODE} \<rparr>"
  have e: "ia_valid attr \<inter> {ATTR_UID, ATTR_GID, ATTR_ATIME, ATTR_MTIME, ATTR_MODE} \<inter> ME_ATTRS
             = ia_valid attr \<inter> ME_ATTRS"
    by (auto simp: ME_ATTRS_def)
  have "set_me_worker isf h path real_path (?b\<lparr> ia_size := s, ia_ctime := c \<rparr>) context fs
          = set_me_worker isf h path real_path ?b context fs"
    by (rule set_me_worker_unselected) simp_all
  also have "\<dots> = set_me_worker isf h path real_path attr context fs"
    by (simp add: set_me_worker_def e)
  finally show "set_me_worker isf h path real_path attr context fs =
     set_me_worker isf h path real_path
       (attr\<lparr> ia_valid := ia_valid attr \<inter> {ATTR_UID, ATTR_GID, ATTR_ATIME, ATTR_MTIME, ATTR_MODE},
              ia_size := s, ia_ctime := c \<rparr>) context fs"
    by simp
next
  assume a: "path_to_special path ME context = Inr me_path" "map_of fs me_path = Some mn"
  note ex = set_me_worker_existing [OF a, of isf h real_path attr]
  show "fst (set_me_worker isf h path real_path attr context fs) = Ok" using ex by simp
  show "\<exists>mn'. map_of (snd (set_me_worker isf h path real_path attr context fs)) me_path = Some mn'
              \<and> fsize (n_stat mn') = fsize (n_stat mn)
              \<and> ctime (n_stat mn') = ctime (n_stat mn)
              \<and> n_target mn' = n_target mn"
    using ex by (simp add: setattr_copy_def ME_ATTRS_mem)
  show "\<forall>q. q \<noteq> me_path \<longrightarrow>
              map_of (snd (set_me_worker isf h path real_path attr context fs)) q = map_of fs q"
    using ex by simp
qed

theorem set_me_worker_masks_witness:
  "fst (set_me_worker (\<lambda>s f. f \<subseteq> s) ex_host ''/a/b'' ''/ro/a/b''
          \<lparr> ia_valid = {ATTR_SIZE, ATTR_CTIME, ATTR_UID}, ia_mode = 0, ia_uid = 42, ia_gid = 0,
            ia_size = 77, ia_atime = 0, ia_mtime = 0, ia_ctime = 5 \<rparr> ex_context
          [(''/ro/a/b'', ex_file), (''/rw/a/.me.b'', ex_me)]) = Ok
   \<and> (\<exists>mn'. map_of (snd (set_me_worker (\<lambda>s f. f \<subseteq> s) ex_host ''/a/b'' ''/ro/a/b''
          \<lparr> ia_valid = {ATTR_SIZE, ATTR_CTIME, ATTR_UID}, ia_mode = 0, ia_uid = 42, ia_gid = 0,
            ia_size = 77, ia_atime = 0, ia_mtime = 0, ia_ctime = 5 \<rparr> ex_context
          [(''/ro/a/b'', ex_file), (''/rw/a/.me.b'', ex_me)])) ''/rw/a/.me.b'' = Some mn'
        \<and> fsize (n_stat mn') = 0 \<and> ctime (n_stat mn') = 30)"
proof -
  let ?fs = "[(''/ro/a/b'', ex_file), (''/rw/a/.me.b'', ex_me)]"
  have h1: "path_to_special ''/a/b'' ME ex_context = Inr ''/rw/a/.me.b''"
    by (simp add: path_eval)
  have h2: "map_of ?fs ''/rw/a/.me.b'' = Some ex_me"
    by simp
  show ?thesis
    using set_me_worker_masks [where isf = "\<lambda>s f. f \<subseteq> s" and h = ex_host
        and real_path = "''/ro/a/b''"
        and attr = "\<lparr> ia_valid = {ATTR_SIZE, ATTR_CTIME, ATTR_UID}, ia_mode = 0, ia_uid = 42,
                       ia_gid = 0, ia_size = 77, ia_atime = 0, ia_mtime = 0, ia_ctime = 5 \<rparr>",
        THEN conjunct2, rule_format, OF h1 h2]
    by auto
qed

subsection \<open>Setting attributes on the RO branch, then reading them\<close>

lemmas op_eval =
  hepunion_setattr_def find_file_def set_me_worker_def find_me_def lstat_def find_path_def
  make_dir_def creat_worker_def notify_change_def new_file_def new_dir_def setattr_copy_def
  clear_mode_flags_def get_file_attr_def get_file_attr_worker_eq merge_attr_def ME_ATTRS_def
  open_worker_def Let_def

text \<open>
  C8 fails on the code. The file \<^verbatim>\<open>/a/b\<close> is on the RO branch with owner and group
  1000 and has no ME; the request sets the owner alone, to 2000. When no ME exists,
  \<^verbatim>\<open>set_me_worker\<close> tests owner and group as one pair: if \<^verbatim>\<open>is_flag_set\<close> demands all
  flags of the pair, the owner of the RO file replaces the requested one and 1000 is read
  back; if it demands any flag, the group is not filled in and the creator's 0 is read
  back. With an ME in place the same request is applied: 2000 is read back. A request
  for access time 500 and modification time 600 on that ME reads back the time of the
  call, 99: the mask of \<^verbatim>\<open>set_me_worker\<close> drops \<^verbatim>\<open>ATTR_ATIME_SET\<close> and \<^verbatim>\<open>ATTR_MTIME_SET\<close>.
\<close>

theorem setattr_uid_alone_not_read_back:
  "get_file_attr ''/a/b'' ex_context
     (snd (hepunion_setattr (\<lambda>s f. f \<subseteq> s) ex_host (Inr ''/a/b'')
        \<lparr> ia_valid = {ATTR_UID}, ia_mode = 0, ia_uid = 2000, ia_gid = 0, ia_size = 0,
          ia_atime = 0, ia_mtime = 0, ia_ctime = 0 \<rparr> ex_context [(''/ro/a/b'', ex_file)]))
     = Inr \<lparr> mode = 0x81A4, uid = 1000, gid = 1000, fsize = 5, atime = 99, mtime = 99,
              ctime = 99 \<rparr>
   \<and> get_file_attr ''/a/b'' ex_context
     (snd (hepunion_setattr (\<lambda>s f. s \<inter> f \<noteq> {}) ex_host (Inr ''/a/b'')
        \<lparr> ia_valid = {ATTR_UID}, ia_mode = 0, ia_uid = 2000, ia_gid = 0, ia_size = 0,
          ia_atime = 0, ia_mtime = 0, ia_ctime = 0 \<rparr> ex_context [(''/ro/a/b'', ex_file)]))
     = Inr \<lparr> mode = 0x81A4, uid = 2000, gid = 0, fsize = 5, atime = 99, mtime = 99,
              ctime = 99 \<rparr>
   \<and> get_file_attr ''/a/b'' ex_context
     (snd (hepunion_setattr (\<lambda>s f. f \<subseteq> s) ex_host (Inr ''/a/b'')
        \<lparr> ia_valid = {ATTR_UID}, ia_mode = 0, ia_uid = 2000, ia_gid = 0, ia_size = 0,
          ia_atime = 0, ia_mtime = 0, ia_ctime = 0 \<rparr> ex_context
        [(''/ro/a/b'', ex_file), (''/rw/a/.me.b'', ex_me)]))
     = Inr \<lparr> mode = 0x8180, uid = 2000, gid = 8, fsize = 5, atime = 10, mtime = 20,
              ctime = 30 \<rparr>
   \<and> get_file_attr ''/a/b'' ex_context
     (snd (hepunion_setattr (\<lambda>s f. f \<subseteq> s) ex_host (Inr ''/a/b'')
        \<lparr> ia_valid = {ATTR_ATIME, ATTR_MTIME, ATTR_ATIME_SET, ATTR_MTIME_SET}, ia_mode = 0,
          ia_uid = 0, ia_gid = 0, ia_size = 0, ia_atime = 500, ia_mtime = 600,
          ia_ctime = 0 \<rparr> ex_context
        [(''/ro/a/b'', ex_file), (''/rw/a/.me.b'', ex_me)]))
     = Inr \<lparr> mode = 0x8180, uid = 7, gid = 8, fsize = 5, atime = 99, mtime = 99,
              ctime = 30 \<rparr>"
  by (simp add: op_eval path_eval VALID_MODES_MASK_def S_IFREG_def)

subsection \<open>Reserved names and the removal of directories\<close>

text \<open>
  C2 fails on the code. \<^verbatim>\<open>hepunion_create\<close> has no test of the name: the header of
  \<^verbatim>\<open>opts.c\<close> lists the refusal of \<^verbatim>\<open>.me.\<close> and \<^verbatim>\<open>.wh.\<close> names as still to do. Creating
  \<^verbatim>\<open>/foo/.me.evil\<close> over an RO directory \<^verbatim>\<open>/foo\<close> returns 0 and leaves the file on the
  RW branch.
\<close>

theorem create_reserved_name_accepted:
  "hepunion_create ex_host (Inr ''/foo/.me.evil'') 0x01A4 ex_context [(''/ro/foo'', ex_dir)] =
     (Ok, [(''/ro/foo'', ex_dir), (''/rw/foo'', ex_dir),
           (''/rw/foo/.me.evil'',
            \<lparr> n_stat = \<lparr> mode = 0x81A4, uid = 0, gid = 0, fsize = 0,
                        atime = 99, mtime = 99, ctime = 99 \<rparr>, n_target = None \<rparr>)])"
  by (simp add: hepunion_create_def find_file_def find_path_def make_dir_def can_create_def
        creat_worker_def notify_change_def new_file_def setattr_copy_def unlink_whiteout_def
        path_eval VALID_MODES_MASK_def S_IFREG_def)

text \<open>
  C4 fails on the code. For an empty directory that resolves on the RO branch,
  \<^verbatim>\<open>hepunion_rmdir\<close> leaves the \<^verbatim>\<open>switch\<close> as soon as \<^verbatim>\<open>can_remove\<close> has granted the
  removal: it returns the origin tag and creates no whiteout. When \<^verbatim>\<open>can_remove\<close>
  refuses, the same call goes on and succeeds.
\<close>

theorem rmdir_ro_granted_does_nothing:
  "hepunion_rmdir ex_host (Inr ''/d'') ex_context [(''/ro/d'', ex_dir)] =
     (Tag READ_ONLY, [(''/ro/d'', ex_dir)])
   \<and> is_empty_dir ''/d'' (Some ''/ro/d'') None ex_context [(''/ro/d'', ex_dir)] = Ok
   \<and> can_remove ex_host ''/d'' ''/ro/d'' = Ok
   \<and> fst (hepunion_rmdir (ex_host\<lparr> h_can_remove := (\<lambda>p. Some EACCES) \<rparr>) (Inr ''/d'') ex_context
            [(''/ro/d'', ex_dir)]) = Ok"
  by (simp add: hepunion_rmdir_def find_file_def can_remove_def is_empty_dir_def children_def
        find_me_def lstat_def create_whiteout_def find_path_def creat_worker_def path_eval)

subsection \<open>Links\<close>







subsection \<open>Unlinking on the RO branch\<close>

text \<open>
  C7 fails on the code. The file \<^verbatim>\<open>/a/b\<close> is on the RO branch and has no ME; the host
  refuses the creation of the whiteout. \<^verbatim>\<open>hepunion_unlink\<close> returns that error, and since
  \<^verbatim>\<open>has_me\<close> was never set to 0 and the stack holds a value other than 0 there, it calls
  \<^verbatim>\<open>create_me\<close> with the unset \<^verbatim>\<open>kstbuf\<close>: an ME that was not there before is left behind,
  and \<^verbatim>\<open>get_file_attr\<close> no longer returns the attributes of the RO file. When an ME
  was there, it is recreated after the refusal, with the access and modification time
  of the rollback, 99, not the saved 10 and 20.
\<close>

theorem unlink_ro_failed_whiteout_leaves_me:
  "get_file_attr ''/a/b'' ex_context [(''/ro/a/b'', ex_file)] = Inr (n_stat ex_file)
   \<and> find_me ''/a/b'' ex_context [(''/ro/a/b'', ex_file)] = Inl ENOENT
   \<and> hepunion_unlink
         (ex_host\<lparr> h_deny_create := (\<lambda>p. if p = ''/rw/a/.wh.b'' then Some ENOSPC else None) \<rparr>)
         (Inr ''/a/b'') ex_context [(''/ro/a/b'', ex_file)]
       = (Err ENOSPC,
          [(''/ro/a/b'', ex_file),
           (''/rw/a'', \<lparr> n_stat = \<lparr> mode = 0x41FF, uid = 0, gid = 0, fsize = 0, atime = 99,
                                      mtime = 99, ctime = 99 \<rparr>, n_target = None \<rparr>),
           (''/rw/a/.me.b'', \<lparr> n_stat = \<lparr> mode = 0xFFFF, uid = 4242, gid = 4343, fsize = 0,
                                            atime = 99, mtime = 99, ctime = 99 \<rparr>,
                                n_target = None \<rparr>)])
   \<and> get_file_attr ''/a/b'' ex_context
         (snd (hepunion_unlink
            (ex_host\<lparr> h_deny_create := (\<lambda>p. if p = ''/rw/a/.wh.b'' then Some ENOSPC else None) \<rparr>)
            (Inr ''/a/b'') ex_context [(''/ro/a/b'', ex_file)]))
       = Inr \<lparr> mode = 0x8FFF, uid = 4242, gid = 4343, fsize = 5, atime = 99, mtime = 99,
                ctime = 99 \<rparr>
   \<and> get_file_attr ''/a/b'' ex_context [(''/ro/a/b'', ex_file), (''/rw/a/.me.b'', ex_me)]
       = Inr \<lparr> mode = 0x8180, uid = 7, gid = 8, fsize = 5, atime = 10, mtime = 20,
                ctime = 30 \<rparr>
   \<and> get_file_attr ''/a/b'' ex_context
         (snd (hepunion_unlink
            (ex_host\<lparr> h_deny_create := (\<lambda>p. if p = ''/rw/a/.wh.b'' then Some ENOSPC else None) \<rparr>)
            (Inr ''/a/b'') ex_context [(''/ro/a/b'', ex_file), (''/rw/a/.me.b'', ex_me)]))
       = Inr \<lparr> mode = 0x8180, uid = 7, gid = 8, fsize = 5, atime = 99, mtime = 99,
                ctime = 99 \<rparr>"
  by (simp add: hepunion_unlink_def can_remove_def create_whiteout_def create_me_def
        unlink_def op_eval path_eval VALID_MODES_MASK_def S_IFREG_def S_IFDIR_def)

subsection \<open>The merged listing\<close>













end
